theory Spec2Isabelle
  imports Main "HOL-Library.Word"
begin

section \<open>JavaScript values of \<open>lib/watermark.js\<close>\<close>

text \<open>
  A JavaScript string is a sequence of 16-bit code units; \<open>charCodeAt\<close> reads one of
  them. A \<open>Uint8Array\<close> holds bytes.
\<close>

type_synonym jsstring = "16 word list"
type_synonym bytes = "8 word list"

text \<open>An ASCII literal as a JavaScript string.\<close>

definition js :: "string \<Rightarrow> jsstring" where
  "js s = map (\<lambda>c. of_nat (of_char c)) s"

text \<open>
  The exceptions that the code of this file can meet: a \<open>TypeError\<close> (a method called on
  \<open>null\<close>, a platform function given a value of the wrong type), a \<open>ReferenceError\<close>
  (an identifier that is bound nowhere), the \<open>InvalidCharacterError\<close> of \<open>atob\<close> and the
  \<open>SecurityError\<close> of \<open>toDataURL\<close>.
\<close>

datatype jserror = TypeError | ReferenceError | InvalidCharacterError | SecurityError

section \<open>\<open>uint8\<close>: a string of raw data as a \<open>Uint8Array\<close>\<close>

text \<open>
  \<^verbatim>\<open>
  function uint8(data) {
      const length = data.length;
      const uints = new Uint8Array(length);
      for (let i = 0; i < length; i++) {
          uints[i] = data.charCodeAt(i);
      }
      return uints;
  }
  \<close>
  \<open>new Uint8Array(length)\<close> is \<open>length\<close> zero bytes. Storing a number into a
  \<open>Uint8Array\<close> element converts it with ToUint8, which keeps the low eight bits:
  that is \<open>ucast\<close> from a 16-bit to an 8-bit word. The loop is the recursion on \<open>i\<close>.
\<close>

function uint8_loop :: "jsstring \<Rightarrow> nat \<Rightarrow> bytes \<Rightarrow> bytes" where
  "uint8_loop data i uints =
     (if i < length data
      then uint8_loop data (Suc i) (uints[i := ucast (data ! i)])
      else uints)"
  by pat_completeness auto
termination
  by (relation "measure (\<lambda>(data, i, uints). length data - i)") auto

declare uint8_loop.simps [simp del]

definition uint8 :: "jsstring \<Rightarrow> bytes" where
  "uint8 data = uint8_loop data 0 (replicate (length data) 0)"

subsection \<open>The loop invariant\<close>

lemma uint8_loop_length: "length (uint8_loop data i uints) = length uints"
proof (induction data i uints rule: uint8_loop.induct)
  case (1 data i uints)
  show ?case
  proof (cases "i < length data")
    case True
    with "1" show ?thesis by (subst uint8_loop.simps) simp
  next
    case False
    then show ?thesis by (subst uint8_loop.simps) simp
  qed
qed

lemma uint8_loop_nth:
  "length uints = length data \<Longrightarrow> j < length data \<Longrightarrow>
   uint8_loop data i uints ! j = (if i \<le> j then ucast (data ! j) else uints ! j)"
proof (induction data i uints rule: uint8_loop.induct)
  case (1 data i uints)
  show ?case
  proof (cases "i < length data")
    case True
    have "uint8_loop data i uints ! j
            = uint8_loop data (Suc i) (uints[i := ucast (data ! i)]) ! j"
      using True by (subst uint8_loop.simps) simp
    also have "\<dots> = (if Suc i \<le> j then ucast (data ! j)
                     else (uints[i := ucast (data ! i)]) ! j)"
      using "1.IH" [OF True] "1.prems" by simp
    also have "\<dots> = (if i \<le> j then ucast (data ! j) else uints ! j)"
      using True "1.prems" by (cases "i = j") auto
    finally show ?thesis .
  next
    case False
    with "1.prems" show ?thesis by (subst uint8_loop.simps) simp
  qed
qed

lemma uint8_length: "length (uint8 s) = length s"
  by (simp add: uint8_def uint8_loop_length)

lemma uint8_nth: "i < length s \<Longrightarrow> uint8 s ! i = ucast (s ! i)"
  by (simp add: uint8_def uint8_loop_nth)

lemma unat_ucast_16_8: "unat (ucast (c :: 16 word) :: 8 word) = unat c mod 2 ^ 8"
  by (simp add: unsigned_ucast_eq take_bit_eq_mod)

text \<open>
  Claim C10. For every string \<open>s\<close>, \<open>uint8 s\<close> has as many bytes as \<open>s\<close> has code units,
  and its \<open>i\<close>-th byte is the character code of \<open>s\<close> at \<open>i\<close> reduced modulo \<open>2 ^ 8\<close>:
  a code above 255 is truncated, and nothing is rejected (the function is total).
\<close>

theorem uint8_bytes:
  "length (uint8 s) = length s \<and>
   (\<forall>i<length s. unat (uint8 s ! i) = unat (s ! i) mod 2 ^ 8)"
  by (simp add: uint8_length uint8_nth unat_ucast_16_8)

text \<open>The code units 321 (above 255) and 65: both become the byte 65.\<close>

theorem uint8_bytes_witness:
  "length (uint8 [321, 65]) = 2 \<and> unat (uint8 [321, 65] ! 0) = 65 \<and>
   unat (uint8 [321, 65] ! 1) = 65"
  using uint8_bytes [of "[321, 65]"] by simp

section \<open>The canvas pool\<close>

text \<open>
  A canvas element and a decoded image both carry a bitmap: a width, a height and the
  pixels inside them (32-bit RGBA, \<open>0\<close> is transparent black).
\<close>

type_synonym pixel = "32 word"

record bitmap =
  width :: nat
  height :: nat
  pixels :: "nat \<Rightarrow> nat \<Rightarrow> pixel"

text \<open>
  The state of a canvas's 2D context, as far as clearing a rectangle depends on it:
  \<open>reach x y w h i j\<close> says that the pixel \<open>(i, j)\<close> of the bitmap lies in the rectangle
  \<open>(x, y, w, h)\<close> as the current transformation places it, and inside the current
  clipping region. In the default state (identity transformation, no clipping region)
  that is the rectangle itself; \<open>translated tx ty\<close> is the state that
  \<open>translate(tx, ty)\<close> leaves on a default context.
\<close>

record context2d =
  reach :: "nat \<Rightarrow> nat \<Rightarrow> nat \<Rightarrow> nat \<Rightarrow> nat \<Rightarrow> nat \<Rightarrow> bool"

definition default_context :: context2d where
  "default_context = \<lparr>reach = (\<lambda>x y w h i j. x \<le> i \<and> i < x + w \<and> y \<le> j \<and> j < y + h)\<rparr>"


text \<open>
  A canvas has its bitmap, its context, and the flag \<open>origin_clean\<close>, which drawing an
  image of another origin clears for good; \<open>toDataURL\<close> on a canvas whose flag is
  cleared throws a \<open>SecurityError\<close>.
\<close>

record HTMLCanvasElement = bitmap +
  ctx :: context2d
  origin_clean :: bool

record HTMLImageElement = bitmap +
  src :: jsstring
  crossOrigin :: "jsstring option"

text \<open>
  Canvas and image objects are mutable and are passed by reference, so the model keeps
  a store: a reference is a number, \<open>canvas_at\<close> and \<open>image_at\<close> map references to
  objects, \<open>canvas_count\<close> and \<open>image_count\<close> are the numbers of objects created so
  far (the next reference to hand out). \<open>canvases\<close> is the array \<^verbatim>\<open>const canvases = []\<close>
  that the pool \<^verbatim>\<open>shared = CanvasPool()\<close> closes over; its methods read and write
  nothing else of the pool.
\<close>

record world =
  canvas_at :: "nat \<Rightarrow> HTMLCanvasElement"
  canvas_count :: nat
  canvases :: "nat list"
  image_at :: "nat \<Rightarrow> HTMLImageElement"
  image_count :: nat

text \<open>\<^verbatim>\<open>document.createElement('canvas')\<close>: a new 300 by 150 transparent canvas.\<close>

definition blank_canvas :: HTMLCanvasElement where
  "blank_canvas = \<lparr>width = 300, height = 150, pixels = (\<lambda>x y. 0), ctx = default_context,
                    origin_clean = True\<rparr>"

definition createElement_canvas :: "world \<Rightarrow> nat \<times> world" where
  "createElement_canvas w =
     (canvas_count w,
      w\<lparr>canvas_at := (canvas_at w)(canvas_count w := blank_canvas),
        canvas_count := Suc (canvas_count w)\<rparr>)"

text \<open>
  \<open>Array.prototype.pop\<close> removes and returns the last element, and returns
  \<open>undefined\<close> (\<open>None\<close>) on an empty array.
\<close>

definition array_pop :: "'a list \<Rightarrow> 'a option \<times> 'a list" where
  "array_pop xs = (if xs = [] then (None, []) else (Some (last xs), butlast xs))"

text \<open>
  \<^verbatim>\<open>
  get length() { return canvases.length; }
  pop() {
      if (this.length === 0) {
          canvases.push(document.createElement('canvas'));
      }
      return canvases.pop();
  }
  release(canvas) {
      const context = canvas.getContext('2d');
      context.clearRect(0, 0, canvas.width, canvas.height);
      canvases.push(canvas);
  }
  clear() { canvases.splice(0, canvases.length); }
  get elements() { return canvases; }
  \<close>
\<close>

definition CanvasPool_length :: "world \<Rightarrow> nat" where
  "CanvasPool_length w = length (canvases w)"

definition CanvasPool_elements :: "world \<Rightarrow> nat list" where
  "CanvasPool_elements w = canvases w"

definition CanvasPool_pop :: "world \<Rightarrow> nat option \<times> world" where
  "CanvasPool_pop w =
     (let w1 = (if CanvasPool_length w = 0
                then (case createElement_canvas w of
                        (c, w') \<Rightarrow> w'\<lparr>canvases := canvases w' @ [c]\<rparr>)
                else w)
      in case array_pop (canvases w1) of (r, rest) \<Rightarrow> (r, w1\<lparr>canvases := rest\<rparr>))"

text \<open>
  \<open>context.clearRect(x, y, w, h)\<close> makes transparent black every pixel that the
  rectangle reaches under the context's current transformation and clipping region.
\<close>

definition clearRect :: "nat \<Rightarrow> nat \<Rightarrow> nat \<Rightarrow> nat \<Rightarrow> HTMLCanvasElement \<Rightarrow> HTMLCanvasElement" where
  "clearRect x y w h c =
     c\<lparr>pixels := (\<lambda>i j. if reach (ctx c) x y w h i j then 0 else pixels c i j)\<rparr>"

definition CanvasPool_release :: "nat \<Rightarrow> world \<Rightarrow> world" where
  "CanvasPool_release canvas w =
     (let c = canvas_at w canvas;
          w1 = w\<lparr>canvas_at := (canvas_at w)(canvas := clearRect 0 0 (width c) (height c) c)\<rparr>
      in w1\<lparr>canvases := canvases w1 @ [canvas]\<rparr>)"

definition CanvasPool_clear :: "world \<Rightarrow> world" where
  "CanvasPool_clear w = w\<lparr>canvases := drop (length (canvases w)) (canvases w)\<rparr>"

text \<open>\<^verbatim>\<open>WatermarkConfig.watermark.destroy = () => shared.clear();\<close>\<close>

definition destroy :: "world \<Rightarrow> world" where
  "destroy w = CanvasPool_clear w"

text \<open>The state when the file has been loaded: no canvas, no image, an empty pool.\<close>

definition world0 :: world where
  "world0 = \<lparr>canvas_at = (\<lambda>_. blank_canvas), canvas_count = 0, canvases = [],
             image_at = (\<lambda>_. \<lparr>width = 0, height = 0, pixels = (\<lambda>x y. 0), src = [],
                                 crossOrigin = None\<rparr>),
             image_count = 0\<rparr>"

subsection \<open>Releasing a canvas\<close>

lemma CanvasPool_release_canvases:
  "canvases (CanvasPool_release s w) = canvases w @ [s]"
  by (simp add: CanvasPool_release_def Let_def)

lemma CanvasPool_release_canvas_at:
  "canvas_at (CanvasPool_release s w) =
     (canvas_at w)(s := clearRect 0 0 (width (canvas_at w s)) (height (canvas_at w s))
                          (canvas_at w s))"
  by (simp add: CanvasPool_release_def Let_def)

lemma clearRect_size: "width (clearRect x y w h c) = width c \<and> height (clearRect x y w h c) = height c"
  by (simp add: clearRect_def)

lemma clearRect_pixels:
  "pixels (clearRect x y w h c) i j = (if reach (ctx c) x y w h i j then 0 else pixels c i j)"
  by (simp add: clearRect_def)

lemma default_context_reach:
  "reach default_context x y w h i j \<longleftrightarrow> x \<le> i \<and> i < x + w \<and> y \<le> j \<and> j < y + h"
  by (simp add: default_context_def)






subsection \<open>Clearing the pool, then taking a canvas\<close>

lemma CanvasPool_clear_canvases: "canvases (CanvasPool_clear w) = []"
  by (simp add: CanvasPool_clear_def)

text \<open>
  Claim C8. After \<open>destroy()\<close> (that is, \<open>shared.clear()\<close>) the pool's length is 0. The
  next \<open>pop()\<close> returns a canvas \<open>c\<close> that did not exist before (\<open>c\<close> is not below the
  count of canvases created so far) and that this call created blank; \<open>c\<close> is handed out
  and not left in the pool, whose length is 0 again after the call.
\<close>

theorem destroy_then_pop:
  "CanvasPool_length (destroy w) = 0 \<and>
   (\<exists>c w'. CanvasPool_pop (destroy w) = (Some c, w') \<and>
      \<not> c < canvas_count (destroy w) \<and> c < canvas_count w' \<and>
      canvas_at w' c = blank_canvas \<and>
      c \<notin> set (CanvasPool_elements w') \<and>
      CanvasPool_length w' = 0)"
  by (simp add: destroy_def CanvasPool_length_def CanvasPool_elements_def CanvasPool_pop_def
      CanvasPool_clear_canvases createElement_canvas_def array_pop_def Let_def)

section \<open>Draw results and their release\<close>

text \<open>
  \<^verbatim>\<open>
  function mapToDataUrl(canvas) { return canvas.toDataURL(); }

  function result(draw, sources) {
      const canvas = draw.apply(null, sources);
      return { canvas, sources };
  }

  function release(result, pool) {
      const { canvas, sources } = result;
      const dataURL = mapToDataUrl(canvas);
      sources.forEach(pool.release);
      return dataURL;
  }
  \<close>
  \<open>canvas.toDataURL()\<close> throws a \<open>SecurityError\<close> when the canvas is not origin-clean, and
  otherwise returns the platform's encoding of the bitmap; the encoder is a parameter
  of the model. An exception in \<open>mapToDataUrl\<close> ends \<open>release\<close> before \<open>forEach\<close>. A draw
  function is the caller's: it gets the source canvases, may change any canvas (its
  bitmap and its context), and returns a canvas. \<open>pool\<close> is always \<open>shared\<close>, whose array
  is the field \<open>canvases\<close> of the state; \<open>forEach\<close> visits the sources in order.
\<close>

record DrawResult =
  canvas :: nat
  sources :: "nat list"

type_synonym draw = "nat list \<Rightarrow> world \<Rightarrow> nat \<times> world"

definition bitmap_of :: "HTMLCanvasElement \<Rightarrow> bitmap" where
  "bitmap_of c = \<lparr>width = width c, height = height c, pixels = pixels c\<rparr>"

definition toDataURL :: "(bitmap \<Rightarrow> jsstring) \<Rightarrow> HTMLCanvasElement \<Rightarrow> jserror + jsstring" where
  "toDataURL encode c = (if origin_clean c then Inr (encode (bitmap_of c)) else Inl SecurityError)"

definition mapToDataUrl :: "(bitmap \<Rightarrow> jsstring) \<Rightarrow> nat \<Rightarrow> world \<Rightarrow> jserror + jsstring" where
  "mapToDataUrl encode c w = toDataURL encode (canvas_at w c)"

definition result :: "draw \<Rightarrow> nat list \<Rightarrow> world \<Rightarrow> DrawResult \<times> world" where
  "result draw srcs w =
     (case draw srcs w of (c, w') \<Rightarrow> (\<lparr>canvas = c, sources = srcs\<rparr>, w'))"

definition release ::
  "(bitmap \<Rightarrow> jsstring) \<Rightarrow> DrawResult \<Rightarrow> world \<Rightarrow> (jserror + jsstring) \<times> world" where
  "release encode r w =
     (case mapToDataUrl encode (canvas r) w of
        Inl e \<Rightarrow> (Inl e, w)
      | Inr dataURL \<Rightarrow> (Inr dataURL, fold CanvasPool_release (sources r) w))"

text \<open>What \<open>CanvasPool_release\<close> leaves of a canvas.\<close>

definition cleared :: "HTMLCanvasElement \<Rightarrow> HTMLCanvasElement" where
  "cleared c = clearRect 0 0 (width c) (height c) c"

lemma cleared_idem: "cleared (cleared c) = cleared c"
  by (simp add: cleared_def clearRect_def fun_eq_iff)

lemma cleared_size: "width (cleared c) = width c \<and> height (cleared c) = height c"
  by (simp add: cleared_def clearRect_size)

lemma cleared_pixels:
  "ctx c = default_context \<Longrightarrow> x < width c \<Longrightarrow> y < height c \<Longrightarrow> pixels (cleared c) x y = 0"
  by (simp add: cleared_def clearRect_pixels default_context_reach)

lemma result_sources: "sources (fst (result draw srcs w)) = srcs"
  by (simp add: result_def split: prod.splits)

lemma fold_release_canvases:
  "canvases (fold CanvasPool_release ss w) = canvases w @ ss"
  by (induction ss arbitrary: w) (simp_all add: CanvasPool_release_canvases)

lemma fold_release_canvas_at:
  "canvas_at (fold CanvasPool_release ss w) t =
     (if t \<in> set ss then cleared (canvas_at w t) else canvas_at w t)"
  by (induction ss arbitrary: w)
     (auto simp: CanvasPool_release_canvas_at cleared_idem cleared_def [symmetric])

text \<open>
  Two canvases checked out of an empty pool and a third one; the draw result composes
  canvas 0 from the sources 0 and 1. The encoder here writes the width, the height
  and the first pixel. In \<open>tainted_canvases\<close> an image of another origin has been drawn
  on canvas 0.
\<close>

definition two_canvases :: world where
  "two_canvases =
     world0\<lparr>canvas_at := (canvas_at world0)
               (0 := \<lparr>width = 2, height = 1, pixels = (\<lambda>x y. 255), ctx = default_context,
                      origin_clean = True\<rparr>,
                1 := \<lparr>width = 1, height = 1, pixels = (\<lambda>x y. 7), ctx = default_context,
                      origin_clean = True\<rparr>,
                2 := \<lparr>width = 1, height = 1, pixels = (\<lambda>x y. 9), ctx = default_context,
                      origin_clean = True\<rparr>),
            canvas_count := 3\<rparr>"

definition tainted_canvases :: world where
  "tainted_canvases =
     two_canvases\<lparr>canvas_at := (canvas_at two_canvases)
                     (0 := (canvas_at two_canvases 0)\<lparr>origin_clean := False\<rparr>)\<rparr>"

definition toy_encoder :: "bitmap \<Rightarrow> jsstring" where
  "toy_encoder c = [of_nat (width c), of_nat (height c), ucast (pixels c 0 0)]"

text \<open>
  Claim C6, against the code. When the composed canvas is not origin-clean, \<open>release\<close>
  ends with the \<open>SecurityError\<close> of \<open>toDataURL\<close>: no data URL is produced, and the
  sources are not released: the pool's length is still 0 and source 1 still has its
  content.
\<close>

theorem release_throws_before_releasing:
  "fst (release toy_encoder \<lparr>canvas = 0, sources = [0, 1]\<rparr> tainted_canvases) = Inl SecurityError \<and>
   CanvasPool_length (snd (release toy_encoder \<lparr>canvas = 0, sources = [0, 1]\<rparr> tainted_canvases)) = 0 \<and>
   pixels (canvas_at (snd (release toy_encoder \<lparr>canvas = 0, sources = [0, 1]\<rparr> tainted_canvases)) 1) 0 0
     = 7"
  by (simp add: release_def mapToDataUrl_def toDataURL_def tainted_canvases_def two_canvases_def
      world0_def CanvasPool_length_def)

text \<open>
  Claim C6, as amended. For every draw result \<open>r\<close> (composed canvas \<open>canvas r\<close>, source
  canvases \<open>sources r\<close>) and every state of the pool: when the composed canvas is
  origin-clean, \<open>release\<close> returns its data URL, read before anything is cleared, and
  then releases the sources in order: the pool's array is the old one followed by the
  sources, so its length grows by their number, and every source is as
  \<open>CanvasPool_release\<close> leaves it; a canvas that is not a source (the composed one, when
  it is not a source) is neither cleared nor added to the pool. When the composed
  canvas is not origin-clean, \<open>release\<close> throws and the state stays as it is.
\<close>

theorem release_sources_only:
  "(origin_clean (canvas_at w (canvas r)) \<longrightarrow>
      fst (release encode r w) = Inr (encode (bitmap_of (canvas_at w (canvas r)))) \<and>
      CanvasPool_elements (snd (release encode r w)) = CanvasPool_elements w @ sources r \<and>
      CanvasPool_length (snd (release encode r w)) = CanvasPool_length w + length (sources r) \<and>
      (\<forall>s\<in>set (sources r).
         canvas_at (snd (release encode r w)) s = cleared (canvas_at w s)) \<and>
      (\<forall>t. t \<notin> set (sources r) \<longrightarrow>
         canvas_at (snd (release encode r w)) t = canvas_at w t \<and>
         (t \<in> set (CanvasPool_elements (snd (release encode r w)))
            \<longleftrightarrow> t \<in> set (CanvasPool_elements w)))) \<and>
   (\<not> origin_clean (canvas_at w (canvas r)) \<longrightarrow>
      release encode r w = (Inl SecurityError, w))"
  by (simp add: release_def mapToDataUrl_def toDataURL_def fold_release_canvases
      fold_release_canvas_at CanvasPool_elements_def CanvasPool_length_def)

theorem release_sources_only_witness:
  "origin_clean (canvas_at two_canvases 0) \<and>
   fst (release toy_encoder \<lparr>canvas = 0, sources = [0, 1]\<rparr> two_canvases) = Inr [2, 1, 255] \<and>
   CanvasPool_elements (snd (release toy_encoder \<lparr>canvas = 0, sources = [0, 1]\<rparr> two_canvases))
     = [0, 1] \<and>
   CanvasPool_length (snd (release toy_encoder \<lparr>canvas = 0, sources = [0, 1]\<rparr> two_canvases)) = 2 \<and>
   pixels (canvas_at (snd (release toy_encoder \<lparr>canvas = 0, sources = [0, 1]\<rparr> two_canvases)) 0) 1 0
     = 0 \<and>
   pixels (canvas_at (snd (release toy_encoder \<lparr>canvas = 0, sources = [0, 1]\<rparr> two_canvases)) 2) 0 0
     = 9"
proof -
  have c: "origin_clean (canvas_at two_canvases 0)"
    by (simp add: two_canvases_def world0_def)
  show ?thesis
    using release_sources_only [of two_canvases "\<lparr>canvas = 0, sources = [0, 1]\<rparr>" toy_encoder] c
    by (simp add: two_canvases_def world0_def toy_encoder_def bitmap_of_def
        CanvasPool_elements_def CanvasPool_length_def cleared_pixels)
qed

section \<open>From a data URL to a blob\<close>

text \<open>
  \<^verbatim>\<open>
  const url = /^data:([^;]+);base64,(.*)$/;

  function split(datURL) {
      return url.exec(datURL).splice(1);
  }
  \<close>
  \<open>url_exec\<close> is \<open>url.exec\<close> for this one regular expression: the string starts with
  \<open>data:\<close>; group 1 is the longest run of characters other than \<open>;\<close> and is not empty
  (a shorter run would have to be followed by a \<open>;\<close>, which a character of the run is
  not); \<open>;base64,\<close> follows; group 2 is the rest, which \<open>.*\<close> and \<open>$\<close> (no flags) accept
  when it holds no line terminator. The match is the array of the whole match and
  the two groups, or \<open>null\<close> (\<open>None\<close>). \<open>splice(1)\<close> returns the elements from index 1 on,
  and on \<open>null\<close> the call is a \<open>TypeError\<close>.
\<close>

definition semicolon :: "16 word" where
  "semicolon = 59"

definition is_line_terminator :: "16 word \<Rightarrow> bool" where
  "is_line_terminator c = (c = 10 \<or> c = 13 \<or> c = 8232 \<or> c = 8233)"

fun strip_prefix :: "'a list \<Rightarrow> 'a list \<Rightarrow> 'a list option" where
  "strip_prefix [] ys = Some ys"
| "strip_prefix (x # xs) [] = None"
| "strip_prefix (x # xs) (y # ys) = (if x = y then strip_prefix xs ys else None)"

definition url_exec :: "jsstring \<Rightarrow> jsstring list option" where
  "url_exec s =
     (case strip_prefix (js ''data:'') s of
        None \<Rightarrow> None
      | Some r1 \<Rightarrow>
          (let g1 = takeWhile (\<lambda>c. c \<noteq> semicolon) r1;
               r2 = dropWhile (\<lambda>c. c \<noteq> semicolon) r1
           in if g1 = [] then None
              else (case strip_prefix (js '';base64,'') r2 of
                      None \<Rightarrow> None
                    | Some g2 \<Rightarrow>
                        if list_ex is_line_terminator g2 then None
                        else Some [s, g1, g2])))"

definition split :: "jsstring \<Rightarrow> jserror + jsstring list" where
  "split datURL =
     (case url_exec datURL of
        None \<Rightarrow> Inl TypeError
      | Some m \<Rightarrow> Inr (drop 1 m))"

text \<open>
  \<^verbatim>\<open>
  function decode(base64) { return window.atob(base64); }
  \<close>
  \<open>window.atob\<close> is the platform's: it decodes base64 text to bytes, or fails, and
  returns the bytes as a string of code units below 256. The decoder of base64 text is a
  parameter of the model.
\<close>

type_synonym base64_decoder = "jsstring \<Rightarrow> bytes option"

definition atob :: "base64_decoder \<Rightarrow> jsstring \<Rightarrow> jserror + jsstring" where
  "atob b64 s = (case b64 s of None \<Rightarrow> Inl InvalidCharacterError
                 | Some bs \<Rightarrow> Inr (map ucast bs))"

definition decode :: "base64_decoder \<Rightarrow> jsstring \<Rightarrow> jserror + jsstring" where
  "decode b64 base64 = atob b64 base64"

text \<open>
  A \<open>Blob\<close> as \<open>new Blob(parts, {type: t})\<close> builds it: its bytes are the bytes of the
  parts one after the other; its type is \<open>t\<close> with every ASCII upper-case letter made
  lower case, or the empty string when \<open>t\<close> has a character outside the range U+0020 to
  U+007E.
\<close>

record Blob =
  blob_bytes :: bytes
  blob_type :: jsstring

definition ascii_lowercase :: "16 word \<Rightarrow> 16 word" where
  "ascii_lowercase c = (if 65 \<le> c \<and> c \<le> 90 then c + 32 else c)"

definition normalize_type :: "jsstring \<Rightarrow> jsstring" where
  "normalize_type t =
     (if list_ex (\<lambda>c. c < 32 \<or> 126 < c) t then [] else map ascii_lowercase t)"

definition new_Blob :: "bytes list \<Rightarrow> jsstring \<Rightarrow> Blob" where
  "new_Blob parts ty = \<lparr>blob_bytes = concat parts, blob_type = normalize_type ty\<rparr>"


text \<open>
  \<^verbatim>\<open>
  function sequence(...funcs) {
      return function (value) {
          return funcs.reduce((val, fn) => fn.call(null, val), value);
      }
  }

  const mapToBlob = sequence(
      split,
      parts => [decode(parts[1]), parts[0]],
      blob => new Blob([uint8(blob[0])], { type: blob[1] })
  );
  \<close>
  The stages have different types, so \<open>sequence\<close> is modelled for two stages and nested
  for three; an exception in a stage ends the call. The two-element array of the second
  stage is a pair.
\<close>

definition sequence :: "('a \<Rightarrow> jserror + 'b) \<Rightarrow> ('b \<Rightarrow> jserror + 'c) \<Rightarrow> 'a \<Rightarrow> jserror + 'c" where
  "sequence f g v = (case f v of Inl e \<Rightarrow> Inl e | Inr x \<Rightarrow> g x)"

definition mapToBlob :: "base64_decoder \<Rightarrow> jsstring \<Rightarrow> jserror + Blob" where
  "mapToBlob b64 =
     sequence split
       (sequence
          (\<lambda>parts. case decode b64 (parts ! 1) of
                      Inl e \<Rightarrow> Inl e
                    | Inr d \<Rightarrow> Inr (d, parts ! 0))
          (\<lambda>blob. Inr (new_Blob [uint8 (fst blob)] (snd blob))))"

subsection \<open>What the regular expression reads\<close>







text \<open>A type with a parameter is not what the expression reads: there is no match.\<close>

lemma split_mime_with_parameter:
  "split (js ''data:text/plain;charset=utf-8;base64,QUI='') = Inl TypeError"
  by (simp add: split_def url_exec_def js_def semicolon_def)

subsection \<open>The bytes of a binary string\<close>



subsection \<open>The type of the blob\<close>


text \<open>A decoder that knows one text: \<open>QUI=\<close> is the base64 of the bytes 65, 66.\<close>

definition toy_base64 :: base64_decoder where
  "toy_base64 s = (if s = js ''QUI='' then Some [65, 66] else None)"





section \<open>Loading resources\<close>

text \<open>
  JavaScript values as the loaders meet them: a string, an \<open>Image\<close> or canvas object
  (by reference), a \<open>Blob\<close> (a \<open>File\<close> is one), an array, and values of no recognised
  shape (\<open>undefined\<close>, \<open>null\<close>, a number).
\<close>

datatype jsval =
    JUndefined
  | JNull
  | JNum int
  | JStr jsstring
  | JArr "jsval list"
  | JImage nat
  | JCanvas nat
  | JBlob Blob

text \<open>
  A promise is modelled by how it ends: fulfilled with a value, rejected with an
  exception, or never settled. A function that returns a promise returns this outcome
  together with the state once the promise's own callbacks have run.
\<close>

datatype 'a promise = Fulfilled 'a | Rejected jserror | Pending

text \<open>
  The \<open>init\<close> argument of the loaders: \<open>Some f\<close> when \<open>typeof init === 'function'\<close>, where
  \<open>f\<close> is what the callback does to the image object it is given; \<open>None\<close> otherwise.
\<close>

type_synonym initializer = "(HTMLImageElement \<Rightarrow> HTMLImageElement) option"

text \<open>
  What the platform decides: \<open>decoded u\<close> is the bitmap that an image whose \<open>src\<close> is \<open>u\<close>
  ends up with, \<open>None\<close> when its \<open>load\<close> event never fires; \<open>readAsDataURL b\<close> is the
  \<open>result\<close> of a \<open>FileReader\<close> that has read the blob \<open>b\<close>; \<open>taints i\<close> says that the image
  \<open>i\<close> is of another origin and not shared, so that drawing it on a canvas clears the
  canvas's \<open>origin_clean\<close> flag; \<open>plat_toDataURL\<close> encodes the bitmap of a canvas and
  \<open>plat_base64\<close> is the decoder behind \<open>atob\<close>.
\<close>

record platform =
  decoded :: "jsstring \<Rightarrow> bitmap option"
  readAsDataURL :: "Blob \<Rightarrow> jsstring"
  taints :: "HTMLImageElement \<Rightarrow> bool"
  plat_toDataURL :: "bitmap \<Rightarrow> jsstring"
  plat_base64 :: base64_decoder

text \<open>\<open>new Image()\<close>: a new image object with nothing loaded.\<close>

definition blank_image :: HTMLImageElement where
  "blank_image = \<lparr>width = 0, height = 0, pixels = (\<lambda>x y. 0), src = [], crossOrigin = None\<rparr>"

definition new_Image :: "world \<Rightarrow> nat \<times> world" where
  "new_Image w =
     (image_count w,
      w\<lparr>image_at := (image_at w)(image_count w := blank_image),
        image_count := Suc (image_count w)\<rparr>)"

text \<open>\<open>init(img)\<close>, for a function \<open>init\<close>.\<close>

definition call_init :: "(HTMLImageElement \<Rightarrow> HTMLImageElement) \<Rightarrow> nat \<Rightarrow> world \<Rightarrow> world" where
  "call_init f img w = w\<lparr>image_at := (image_at w)(img := f (image_at w img))\<rparr>"

text \<open>
  \<open>img.src = url\<close>: the attribute is set, and when the platform decodes the resource the
  image gets its bitmap and its \<open>load\<close> event fires (\<open>True\<close>). \<open>with_src plat url i\<close> is the
  image object \<open>i\<close> once that has happened.
\<close>

definition with_src :: "platform \<Rightarrow> jsstring \<Rightarrow> HTMLImageElement \<Rightarrow> HTMLImageElement" where
  "with_src plat url i =
     (case decoded plat url of
        None \<Rightarrow> i\<lparr>src := url\<rparr>
      | Some b \<Rightarrow> i\<lparr>src := url, width := width b, height := height b, pixels := pixels b\<rparr>)"

definition set_src :: "platform \<Rightarrow> nat \<Rightarrow> jsstring \<Rightarrow> world \<Rightarrow> bool \<times> world" where
  "set_src plat img url w =
     (decoded plat url \<noteq> None,
      w\<lparr>image_at := (image_at w)(img := with_src plat url (image_at w img))\<rparr>)"

text \<open>
  \<^verbatim>\<open>
  function setAndResolve(img, src, resolve) {
      img.onload = () => resolve(img);
      img.src = src;
  }
  \<close>
  There is no \<open>onerror\<close> handler: when the image does not load, \<open>resolve\<close> is never
  called and the promise stays pending.
\<close>

definition setAndResolve :: "platform \<Rightarrow> nat \<Rightarrow> jsstring \<Rightarrow> world \<Rightarrow> jsval promise \<times> world" where
  "setAndResolve plat img s w =
     (case set_src plat img s w of
        (loaded, w') \<Rightarrow> (if loaded then Fulfilled (JImage img) else Pending, w'))"

text \<open>
  \<^verbatim>\<open>
  function getLoader(resource) {
      const type = typeof (resource);
      if (type === 'string') { return loadUrl; }
      if (resource instanceof Image) { return identity; }
      return loadFile;
  }
  \<close>
  The three functions it can return are the three values of \<open>loader\<close>.
\<close>

datatype loader = loadUrl_fn | identity_fn | loadFile_fn

fun getLoader :: "jsval \<Rightarrow> loader" where
  "getLoader (JStr s) = loadUrl_fn"
| "getLoader (JImage k) = identity_fn"
| "getLoader resource = loadFile_fn"

text \<open>
  \<^verbatim>\<open>
  function loadUrl(url, init) {
      const img = new Image();
      (typeof (init) === 'function') && init(img);
      return new Promise(resolve => {
          img.onload = () => resolve(img)
          img.src = url;
      });
  }

  function loadFile(file) {
      const reader = new FileReader();
      return new Promise(resolve => {
          const img = new Image();
          reader.onloadend = () => setAndResolve(img, reader.result, resolve);
          reader.readAsDataURL(file);
      });
  }

  function identity(x) { return x; }
  \<close>
  The body of \<open>loadUrl\<close>'s promise is that of \<open>setAndResolve\<close>. In \<open>loadFile\<close>,
  \<open>readAsDataURL\<close> throws a \<open>TypeError\<close> when its argument is not a \<open>Blob\<close>; thrown inside
  the promise's executor, it rejects the promise. The assignment of \<open>src\<close> in \<open>loadFile\<close>
  happens when the reader has finished; the state that \<open>loadFile\<close> returns here is the state
  once that has happened.
\<close>

definition loadUrl :: "platform \<Rightarrow> jsstring \<Rightarrow> initializer \<Rightarrow> world \<Rightarrow> jsval promise \<times> world" where
  "loadUrl plat url init w =
     (case new_Image w of
        (img, w1) \<Rightarrow>
          (let w2 = (case init of Some f \<Rightarrow> call_init f img w1 | None \<Rightarrow> w1)
           in setAndResolve plat img url w2))"

definition loadFile :: "platform \<Rightarrow> jsval \<Rightarrow> world \<Rightarrow> jsval promise \<times> world" where
  "loadFile plat file w =
     (case new_Image w of
        (img, w1) \<Rightarrow>
          (case file of
             JBlob b \<Rightarrow> setAndResolve plat img (readAsDataURL plat b) w1
           | _ \<Rightarrow> (Rejected TypeError, w1)))"

definition identity :: "'a \<Rightarrow> 'a" where
  "identity x = x"

text \<open>
  \<open>loader(resource, init)\<close>. \<open>identity\<close> returns the resource itself, which \<open>Promise.all\<close>
  takes as a value that is already there. \<open>getLoader\<close> returns \<open>loadUrl\<close> for a string
  only, so the other case of the first equation is never reached from \<open>load\<close>.
\<close>

fun call_loader :: "loader \<Rightarrow> platform \<Rightarrow> jsval \<Rightarrow> initializer \<Rightarrow> world \<Rightarrow> jsval promise \<times> world" where
  "call_loader loadUrl_fn plat resource init w =
     (case resource of JStr url \<Rightarrow> loadUrl plat url init w | _ \<Rightarrow> (Rejected TypeError, w))"
| "call_loader identity_fn plat resource init w = (Fulfilled (identity resource), w)"
| "call_loader loadFile_fn plat resource init w = loadFile plat resource w"

subsection \<open>\<open>Promise.all\<close>\<close>

text \<open>
  \<open>Promise.all\<close> as ECMAScript defines it: an array \<open>values\<close> with one slot per promise, a
  flag \<open>alreadyCalled\<close> per promise and a count of the promises still awaited. When
  promise \<open>i\<close> is fulfilled with \<open>v\<close>, \<open>values[i] = v\<close> and the count goes down; at 0 the
  aggregate is fulfilled with \<open>values\<close>. The first rejection rejects the aggregate. An
  empty list is fulfilled at once. The schedule is the order in which the promises
  settle, as a list of their indices; a promise that stays pending never runs its step.
\<close>

record all_state =
  vals :: "jsval list"
  called :: "bool list"
  remaining :: nat
  aggregate :: "jsval promise"

definition settle_element :: "jsval promise list \<Rightarrow> nat \<Rightarrow> all_state \<Rightarrow> all_state" where
  "settle_element ps i st =
     (if length ps \<le> i \<or> aggregate st \<noteq> Pending then st
      else case ps ! i of
             Pending \<Rightarrow> st
           | Rejected e \<Rightarrow> st\<lparr>aggregate := Rejected e\<rparr>
           | Fulfilled v \<Rightarrow>
               if called st ! i then st
               else (let vs = (vals st)[i := v]; r = remaining st - 1
                     in st\<lparr>vals := vs, called := (called st)[i := True], remaining := r,
                           aggregate := (if r = 0 then Fulfilled (JArr vs) else Pending)\<rparr>))"

definition Promise_all :: "nat list \<Rightarrow> jsval promise list \<Rightarrow> jsval promise" where
  "Promise_all sched ps =
     (if ps = [] then Fulfilled (JArr [])
      else aggregate (fold (settle_element ps) sched
             \<lparr>vals = replicate (length ps) JUndefined, called = replicate (length ps) False,
              remaining = length ps, aggregate = Pending\<rparr>))"

subsection \<open>\<open>load\<close>\<close>

text \<open>
  \<^verbatim>\<open>
  function load(resources, init) {
      let promises = [];
      for (var i = 0; i < resources.length; i++) {
          const resource = resources[i];
          const loader = getLoader(resource);
          const promise = loader(resource, init);
          promises.push(promise);
      }
      return Promise.all(promises);
  }
  \<close>
  The loop visits the resources from first to last and pushes one promise for each.
\<close>

fun load_loop :: "platform \<Rightarrow> initializer \<Rightarrow> jsval list \<Rightarrow> world \<Rightarrow> jsval promise list \<times> world" where
  "load_loop plat init [] w = ([], w)"
| "load_loop plat init (resource # rest) w =
     (case call_loader (getLoader resource) plat resource init w of
        (promise, w1) \<Rightarrow>
          (case load_loop plat init rest w1 of
             (promises, w2) \<Rightarrow> (promise # promises, w2)))"

definition load :: "platform \<Rightarrow> nat list \<Rightarrow> jsval list \<Rightarrow> initializer \<Rightarrow> world \<Rightarrow> jsval promise \<times> world" where
  "load plat sched resources init w =
     (case load_loop plat init resources w of
        (promises, w') \<Rightarrow> (Promise_all sched promises, w'))"

subsection \<open>\<open>Promise.all\<close> fills its array by index\<close>

text \<open>
  The state of \<open>Promise.all\<close> over promises fulfilled with \<open>vs\<close>, once the promises with
  the indices \<open>S\<close> have settled.
\<close>

definition all_after :: "jsval list \<Rightarrow> nat list \<Rightarrow> all_state" where
  "all_after vs S =
     \<lparr>vals = map (\<lambda>i. if i \<in> set S then vs ! i else JUndefined) [0..<length vs],
      called = map (\<lambda>i. i \<in> set S) [0..<length vs],
      remaining = card ({..<length vs} - set S),
      aggregate = (if {..<length vs} \<subseteq> set S then Fulfilled (JArr vs) else Pending)\<rparr>"

lemma all_after_Nil:
  "vs \<noteq> [] \<Longrightarrow>
   all_after vs [] = \<lparr>vals = replicate (length vs) JUndefined,
                      called = replicate (length vs) False,
                      remaining = length vs, aggregate = Pending\<rparr>"
  by (simp add: all_after_def map_replicate_const lessThan_empty_iff)

lemma all_after_step:
  "settle_element (map Fulfilled vs) x (all_after vs S) = all_after vs (S @ [x])"
proof (cases "x < length vs")
  case False
  then have "{..<length vs} - set (S @ [x]) = {..<length vs} - set S"
    and "{..<length vs} \<subseteq> set (S @ [x]) \<longleftrightarrow> {..<length vs} \<subseteq> set S"
    by auto
  moreover have "map (\<lambda>i. i \<in> set (S @ [x])) [0..<length vs] = map (\<lambda>i. i \<in> set S) [0..<length vs]"
    using False by simp
  moreover have "map (\<lambda>i. if i \<in> set (S @ [x]) then vs ! i else JUndefined) [0..<length vs]
                 = map (\<lambda>i. if i \<in> set S then vs ! i else JUndefined) [0..<length vs]"
    using False by simp
  ultimately have "all_after vs (S @ [x]) = all_after vs S"
    unfolding all_after_def by (simp only:)
  with False show ?thesis by (simp add: settle_element_def)
next
  case x: True
  show ?thesis
  proof (cases "x \<in> set S")
    case True
    then have "set (S @ [x]) = set S" by auto
    then have same: "all_after vs (S @ [x]) = all_after vs S"
      unfolding all_after_def by (simp only:)
    have "called (all_after vs S) ! x" using x True by (simp add: all_after_def)
    then show ?thesis using x same by (simp add: settle_element_def split: promise.splits)
  next
    case False
    then have pend: "aggregate (all_after vs S) = Pending"
      using x by (auto simp: all_after_def)
    have notc: "\<not> called (all_after vs S) ! x" using x False by (simp add: all_after_def)
    have c: "(called (all_after vs S))[x := True] = map (\<lambda>i. i \<in> set (S @ [x])) [0..<length vs]"
      using x by (intro nth_equalityI) (auto simp: all_after_def nth_list_update)
    have v: "(vals (all_after vs S))[x := vs ! x]
               = map (\<lambda>i. if i \<in> set (S @ [x]) then vs ! i else JUndefined) [0..<length vs]"
      using x by (intro nth_equalityI) (auto simp: all_after_def nth_list_update)
    have "{..<length vs} - set (S @ [x]) = ({..<length vs} - set S) - {x}" by auto
    moreover have "x \<in> {..<length vs} - set S" using x False by simp
    ultimately have r: "remaining (all_after vs S) - 1 = card ({..<length vs} - set (S @ [x]))"
      by (simp add: all_after_def)
    have z: "card ({..<length vs} - set (S @ [x])) = 0 \<longleftrightarrow> {..<length vs} \<subseteq> set (S @ [x])"
      by (auto simp: card_eq_0_iff)
    have full: "{..<length vs} \<subseteq> set (S @ [x]) \<Longrightarrow>
                map (\<lambda>i. if i \<in> set (S @ [x]) then vs ! i else JUndefined) [0..<length vs] = vs"
      by (intro nth_equalityI) auto
    have "settle_element (map Fulfilled vs) x (all_after vs S)
            = (all_after vs S)\<lparr>vals := (vals (all_after vs S))[x := vs ! x],
                 called := (called (all_after vs S))[x := True],
                 remaining := remaining (all_after vs S) - 1,
                 aggregate := (if remaining (all_after vs S) - 1 = 0
                               then Fulfilled (JArr ((vals (all_after vs S))[x := vs ! x]))
                               else Pending)\<rparr>"
      using x pend notc by (simp add: settle_element_def Let_def)
    also have "\<dots> = all_after vs (S @ [x])"
      unfolding c v r z using full by (simp add: all_after_def)
    finally show ?thesis .
  qed
qed

lemma fold_settle_all_after:
  "fold (settle_element (map Fulfilled vs)) sched (all_after vs S) = all_after vs (S @ sched)"
  by (induction sched arbitrary: S) (simp_all add: all_after_step)

lemma Promise_all_fulfilled:
  assumes "\<forall>i<length vs. i \<in> set sched"
  shows "Promise_all sched (map Fulfilled vs) = Fulfilled (JArr vs)"
proof (cases "vs = []")
  case True
  then show ?thesis by (simp add: Promise_all_def)
next
  case False
  have "{..<length vs} \<subseteq> set sched" using assms by auto
  then have "aggregate (all_after vs ([] @ sched)) = Fulfilled (JArr vs)"
    by (simp add: all_after_def)
  then show ?thesis
    using False fold_settle_all_after [of vs sched "[]"]
    by (simp add: Promise_all_def all_after_Nil)
qed

subsection \<open>What one loader call changes\<close>

lemmas loader_defs =
  loadUrl_def loadFile_def new_Image_def call_init_def set_src_def with_src_def
  setAndResolve_def identity_def Let_def

lemma load_loop_Cons_snd:
  "snd (load_loop plat init (r # R) w)
     = snd (load_loop plat init R (snd (call_loader (getLoader r) plat r init w)))"
  by (simp split: prod.splits)

lemma load_loop_Cons_fst:
  "fst (load_loop plat init (r # R) w)
     = fst (call_loader (getLoader r) plat r init w)
       # fst (load_loop plat init R (snd (call_loader (getLoader r) plat r init w)))"
  by (simp split: prod.splits)

lemma call_loader_count:
  "image_count w \<le> image_count (snd (call_loader (getLoader r) plat r init w))"
  by (cases r) (auto simp: loader_defs split: option.splits jsval.splits)

lemma call_loader_frame:
  "k < image_count w \<Longrightarrow>
   image_at (snd (call_loader (getLoader r) plat r init w)) k = image_at w k"
  by (cases r) (auto simp: loader_defs split: option.splits jsval.splits)

lemma load_loop_count:
  "image_count w \<le> image_count (snd (load_loop plat init R w))"
proof (induction R arbitrary: w)
  case Nil
  show ?case by simp
next
  case (Cons r R)
  obtain p w1 where c: "call_loader (getLoader r) plat r init w = (p, w1)"
    by (cases "call_loader (getLoader r) plat r init w")
  have "image_count w \<le> image_count w1"
    using call_loader_count [of w r plat init] c by simp
  also have "\<dots> \<le> image_count (snd (load_loop plat init R w1))"
    by (rule Cons.IH)
  finally show ?case using c by (simp only: load_loop_Cons_snd snd_conv)
qed

lemma load_loop_frame:
  "k < image_count w \<Longrightarrow> image_at (snd (load_loop plat init R w)) k = image_at w k"
proof (induction R arbitrary: w)
  case Nil
  show ?case by simp
next
  case (Cons r R)
  obtain p w1 where c: "call_loader (getLoader r) plat r init w = (p, w1)"
    by (cases "call_loader (getLoader r) plat r init w")
  have le: "image_count w \<le> image_count w1"
    using call_loader_count [of w r plat init] c by simp
  have "image_at (snd (load_loop plat init R w1)) k = image_at w1 k"
    using Cons.prems le by (intro Cons.IH) simp
  also have "\<dots> = image_at w k"
    using call_loader_frame [OF Cons.prems, of r plat init] c by simp
  finally show ?case using c by (simp only: load_loop_Cons_snd snd_conv)
qed

subsection \<open>A value of no recognised shape\<close>

fun recognised :: "jsval \<Rightarrow> bool" where
  "recognised (JStr s) = True"
| "recognised (JBlob b) = True"
| "recognised (JImage k) = True"
| "recognised v = False"

text \<open>
  A platform for the examples: every URL but \<open>bad.jpg\<close> decodes, to a bitmap as wide as
  the URL is long.
\<close>

definition toy_platform :: platform where
  "toy_platform =
     \<lparr>decoded = (\<lambda>u. if u = js ''bad.jpg'' then None
                      else Some \<lparr>width = length u, height = 1, pixels = (\<lambda>x y. 1)\<rparr>),
      readAsDataURL = (\<lambda>b. js ''data:'' @ blob_type b @ js '';base64,AA==''),
      taints = (\<lambda>i. False),
      plat_toDataURL = toy_encoder, plat_base64 = toy_base64\<rparr>"

definition three_resources :: "jsval list" where
  "three_resources =
     [JStr (js ''a.jpg''), JImage 0, JBlob \<lparr>blob_bytes = [0], blob_type = js ''image/png''\<rparr>]"

definition one_image :: world where
  "one_image = world0\<lparr>image_count := 1\<rparr>"

text \<open>
  Claim C4, against the code: the number 42 is neither a string, nor a file, nor an
  image, and \<open>getLoader\<close> hands it to \<open>loadFile\<close>, a recognised loader.
\<close>

theorem unrecognised_is_dispatched:
  "\<not> recognised (JNum 42) \<and> getLoader (JNum 42) = loadFile_fn"
  by simp

text \<open>
  Claim C4, as amended. Every value that is neither a string, nor a file (blob), nor an
  image is dispatched by \<open>getLoader\<close> to \<open>loadFile\<close>; no error of the loader's own is
  raised. The load fails only inside \<open>loadFile\<close>, after an image object has been
  constructed, when \<open>readAsDataURL\<close> refuses the value: the promise is rejected with the
  platform's \<open>TypeError\<close>.
\<close>

theorem unrecognised_goes_to_loadFile:
  "\<not> recognised v \<Longrightarrow>
   getLoader v = loadFile_fn \<and>
   call_loader (getLoader v) plat v init w = (Rejected TypeError, snd (new_Image w))"
  by (cases v) (simp_all add: loadFile_def split: prod.splits)

theorem unrecognised_goes_to_loadFile_witness:
  "getLoader JNull = loadFile_fn \<and>
   fst (call_loader (getLoader JNull) toy_platform JNull None world0) = Rejected TypeError"
  using unrecognised_goes_to_loadFile [of JNull toy_platform None world0] by simp

subsection \<open>The order of the loaded images\<close>

text \<open>
  \<open>loadable\<close>: the resource is a string, a blob or an image, and its load completes.
  \<open>comes_from plat w r v\<close>: the value \<open>v\<close> is the image of the resource \<open>r\<close>: the image \<open>r\<close>
  itself when \<open>r\<close> is an image, and otherwise an image whose \<open>src\<close> is the URL (the data
  URL of the blob) and whose bitmap is what the platform decodes from it.
\<close>

fun loadable :: "platform \<Rightarrow> jsval \<Rightarrow> bool" where
  "loadable plat (JStr u) = (decoded plat u \<noteq> None)"
| "loadable plat (JBlob b) = (decoded plat (readAsDataURL plat b) \<noteq> None)"
| "loadable plat (JImage k) = True"
| "loadable plat resource = False"

definition shows_url :: "platform \<Rightarrow> HTMLImageElement \<Rightarrow> jsstring \<Rightarrow> bool" where
  "shows_url plat img u =
     (src img = u \<and>
      (case decoded plat u of
         None \<Rightarrow> False
       | Some b \<Rightarrow> width img = width b \<and> height img = height b \<and> pixels img = pixels b))"

fun comes_from :: "platform \<Rightarrow> world \<Rightarrow> jsval \<Rightarrow> jsval \<Rightarrow> bool" where
  "comes_from plat w (JStr u) (JImage k) = shows_url plat (image_at w k) u"
| "comes_from plat w (JBlob b) (JImage k) = shows_url plat (image_at w k) (readAsDataURL plat b)"
| "comes_from plat w (JImage k') (JImage k) = (k = k')"
| "comes_from plat w resource v = False"

lemma call_loader_fulfilled:
  assumes "loadable plat r"
  shows "\<exists>v. fst (call_loader (getLoader r) plat r init w) = Fulfilled v \<and>
             comes_from plat (snd (call_loader (getLoader r) plat r init w)) r v \<and>
             ((\<exists>k. r = JImage k) \<or>
              (\<exists>k. v = JImage k \<and> k < image_count (snd (call_loader (getLoader r) plat r init w))))"
  using assms
  by (cases r) (auto simp: loader_defs shows_url_def split: option.splits)

lemma comes_from_frame:
  assumes "comes_from plat w1 r v"
    and "(\<exists>k. r = JImage k) \<or> (\<exists>k. v = JImage k \<and> image_at w2 k = image_at w1 k)"
  shows "comes_from plat w2 r v"
  using assms by (cases "(plat, w1, r, v)" rule: comes_from.cases) auto

lemma load_loop_fulfilled:
  assumes "list_all (loadable plat) R"
  shows "\<exists>vs. fst (load_loop plat init R w) = map Fulfilled vs \<and>
              list_all2 (comes_from plat (snd (load_loop plat init R w))) R vs"
  using assms
proof (induction R arbitrary: w)
  case Nil
  show ?case by simp
next
  case (Cons r R)
  define w1 where "w1 = snd (call_loader (getLoader r) plat r init w)"
  define w2 where "w2 = snd (load_loop plat init R w1)"
  from Cons.prems have r: "loadable plat r" and R: "list_all (loadable plat) R" by simp_all
  obtain v where v: "fst (call_loader (getLoader r) plat r init w) = Fulfilled v"
    "comes_from plat w1 r v" "(\<exists>k. r = JImage k) \<or> (\<exists>k. v = JImage k \<and> k < image_count w1)"
    using call_loader_fulfilled [OF r, of init w] unfolding w1_def by blast
  obtain vs where vs: "fst (load_loop plat init R w1) = map Fulfilled vs"
    "list_all2 (comes_from plat w2) R vs"
    using Cons.IH [OF R, of w1] unfolding w2_def by blast
  have "(\<exists>k. r = JImage k) \<or> (\<exists>k. v = JImage k \<and> image_at w2 k = image_at w1 k)"
    using v(3) load_loop_frame [of _ w1 plat init R] unfolding w2_def by blast
  then have "comes_from plat w2 r v"
    using v(2) by (rule comes_from_frame [rotated])
  then have "list_all2 (comes_from plat w2) (r # R) (v # vs)"
    using vs(2) by simp
  moreover have "fst (load_loop plat init (r # R) w) = map Fulfilled (v # vs)"
    using v(1) vs(1) by (simp add: load_loop_Cons_fst w1_def del: load_loop.simps)
  moreover have "snd (load_loop plat init (r # R) w) = w2"
    by (simp add: load_loop_Cons_snd w1_def w2_def del: load_loop.simps)
  ultimately show ?case by metis
qed

lemma load_eq:
  "load plat sched R init w
     = (Promise_all sched (fst (load_loop plat init R w)), snd (load_loop plat init R w))"
  by (simp add: load_def split: prod.splits)

lemma load_fulfilled:
  assumes "list_all (loadable plat) R" and "\<forall>i<length R. i \<in> set sched"
  shows "\<exists>vs. load plat sched R init w = (Fulfilled (JArr vs), snd (load_loop plat init R w)) \<and>
              fst (load_loop plat init R w) = map Fulfilled vs \<and>
              list_all2 (comes_from plat (snd (load_loop plat init R w))) R vs"
proof -
  obtain vs where vs: "fst (load_loop plat init R w) = map Fulfilled vs"
    "list_all2 (comes_from plat (snd (load_loop plat init R w))) R vs"
    using load_loop_fulfilled [OF assms(1)] by blast
  have len: "length vs = length R"
    using vs(2) by (simp add: list_all2_lengthD)
  have "Promise_all sched (map Fulfilled vs) = Fulfilled (JArr vs)"
    using assms(2) len by (intro Promise_all_fulfilled) simp
  then have "load plat sched R init w = (Fulfilled (JArr vs), snd (load_loop plat init R w))"
    using vs(1) by (simp add: load_eq)
  with vs show ?thesis by blast
qed

text \<open>
  Claim C1. For every resource list \<open>R\<close> of strings, blobs and images whose loads all
  complete, and every order \<open>sched\<close> in which they complete (every index occurs in it),
  \<open>load\<close> is fulfilled with a list that is as long as \<open>R\<close> and whose \<open>i\<close>-th element is
  the image of the \<open>i\<close>-th resource; any other order of completion \<open>sched'\<close> gives the same
  result and the same state.
\<close>

theorem load_keeps_order:
  assumes "list_all (loadable plat) R"
    and "\<forall>i<length R. i \<in> set sched" and "\<forall>i<length R. i \<in> set sched'"
  shows "\<exists>vs. fst (load plat sched R init w) = Fulfilled (JArr vs) \<and>
              length vs = length R \<and>
              list_all2 (comes_from plat (snd (load plat sched R init w))) R vs \<and>
              load plat sched' R init w = load plat sched R init w"
proof -
  obtain vs where vs: "load plat sched R init w = (Fulfilled (JArr vs), snd (load_loop plat init R w))"
    "fst (load_loop plat init R w) = map Fulfilled vs"
    "list_all2 (comes_from plat (snd (load_loop plat init R w))) R vs"
    using load_fulfilled [OF assms(1,2)] by blast
  obtain vs' where vs': "load plat sched' R init w = (Fulfilled (JArr vs'), snd (load_loop plat init R w))"
    "fst (load_loop plat init R w) = map Fulfilled vs'"
    using load_fulfilled [OF assms(1,3)] by blast
  have "map Fulfilled vs' = map Fulfilled vs" using vs(2) vs'(2) by simp
  then have "vs' = vs" by (simp add: inj_map_eq_map inj_on_def)
  then show ?thesis
    using vs vs'(1) by (auto simp: list_all2_lengthD)
qed

text \<open>
  A URL, the image 0 that exists already, and a blob; the blob's load completes first
  and the URL's second.
\<close>

theorem load_keeps_order_witness:
  "fst (load toy_platform [2, 0, 1] three_resources None one_image)
     = Fulfilled (JArr [JImage 1, JImage 0, JImage 2]) \<and>
   load toy_platform [0, 1, 2] three_resources None one_image
     = load toy_platform [2, 0, 1] three_resources None one_image"
proof -
  have l: "list_all (loadable toy_platform) three_resources"
    by (simp add: three_resources_def toy_platform_def js_def)
  have s: "\<forall>i<length three_resources. i \<in> set [2, 0, 1]"
          "\<forall>i<length three_resources. i \<in> set [0, 1, 2]"
    by (auto simp: three_resources_def)
  have e: "fst (load toy_platform [2, 0, 1] three_resources None one_image)
             = Fulfilled (JArr [JImage 1, JImage 0, JImage 2])"
    by (simp add: load_eq Promise_all_def settle_element_def loader_defs three_resources_def
        toy_platform_def one_image_def world0_def js_def)
  show ?thesis
    using load_keeps_order [OF l s, of None one_image] e by auto
qed

subsection \<open>Where the initializer is called\<close>











section \<open>The pipeline\<close>

subsection \<open>Options\<close>

text \<open>
  \<^verbatim>\<open>
  function extend(first, second) {
      const secondKeys = Object.keys(second);
      secondKeys.forEach(key => first[key] = second[key]);
      return first;
  }
  function clone(obj) { return extend({}, obj); }

  const defaults = { init: () => {}, }

  function mergeOptions(options) { return extend(clone(defaults), options); }
  \<close>
  The pipeline reads one key of its options, \<open>init\<close>; an options object is modelled by
  that key: \<open>None\<close> when the object does not have it. The default \<open>init\<close> is a function
  that leaves the image as it is.
\<close>

record Options =
  opt_init :: "initializer option"

definition empty_object :: Options where
  "empty_object = \<lparr>opt_init = None\<rparr>"

definition extend :: "Options \<Rightarrow> Options \<Rightarrow> Options" where
  "extend first second =
     (case opt_init second of None \<Rightarrow> first | Some v \<Rightarrow> first\<lparr>opt_init := Some v\<rparr>)"

definition clone :: "Options \<Rightarrow> Options" where
  "clone obj = extend empty_object obj"

definition defaults :: Options where
  "defaults = \<lparr>opt_init = Some (Some (\<lambda>img. img))\<rparr>"

definition mergeOptions :: "Options \<Rightarrow> Options" where
  "mergeOptions options = extend (clone defaults) options"

text \<open>\<open>opts.init\<close>: \<open>undefined\<close>, which is not a function, when the key is absent.\<close>

definition get_init :: "Options \<Rightarrow> initializer" where
  "get_init opts = (case opt_init opts of None \<Rightarrow> None | Some i \<Rightarrow> i)"

subsection \<open>From images to canvases\<close>

text \<open>
  \<^verbatim>\<open>
  function drawImage(img, canvas) {
      const ctx = canvas.getContext('2d');
      canvas.width = img.width;
      canvas.height = img.height;
      ctx.drawImage(img, 0, 0);
      return canvas;
  }
  function imageToCanvas(img, pool) {
      const canvas = pool.pop();
      return drawImage(img, canvas);
  }
  function mapToCanvas(images, pool) {
      return images.map(img => imageToCanvas(img, pool));
  }
  \<close>
  Setting the size of a canvas empties it and puts its context back in the default
  state; the image is then painted at the origin, which clears the canvas's
  \<open>origin_clean\<close> flag when the image taints it.
  \<open>map\<close> on a value that is not an array, \<open>drawImage\<close> on a value that is not an image,
  and \<open>getContext\<close> on \<open>undefined\<close> are \<open>TypeError\<close>s.
\<close>

definition drawImage :: "platform \<Rightarrow> nat \<Rightarrow> nat \<Rightarrow> world \<Rightarrow> nat \<times> world" where
  "drawImage plat img c w =
     (let i = image_at w img
      in (c, w\<lparr>canvas_at := (canvas_at w)
                  (c := \<lparr>width = width i, height = height i,
                         pixels = (\<lambda>x y. if x < width i \<and> y < height i then pixels i x y
                                          else 0),
                         ctx = default_context,
                         origin_clean = (origin_clean (canvas_at w c) \<and> \<not> taints plat i)\<rparr>)\<rparr>))"

definition imageToCanvas :: "platform \<Rightarrow> jsval \<Rightarrow> world \<Rightarrow> (jserror + nat) \<times> world" where
  "imageToCanvas plat img w =
     (case CanvasPool_pop w of
        (None, w1) \<Rightarrow> (Inl TypeError, w1)
      | (Some c, w1) \<Rightarrow>
          (case img of
             JImage i \<Rightarrow> (case drawImage plat i c w1 of (c', w2) \<Rightarrow> (Inr c', w2))
           | _ \<Rightarrow> (Inl TypeError, w1)))"

fun mapToCanvas_loop :: "platform \<Rightarrow> jsval list \<Rightarrow> world \<Rightarrow> (jserror + nat list) \<times> world" where
  "mapToCanvas_loop plat [] w = (Inr [], w)"
| "mapToCanvas_loop plat (img # rest) w =
     (case imageToCanvas plat img w of
        (Inl e, w1) \<Rightarrow> (Inl e, w1)
      | (Inr c, w1) \<Rightarrow>
          (case mapToCanvas_loop plat rest w1 of
             (Inl e, w2) \<Rightarrow> (Inl e, w2)
           | (Inr cs, w2) \<Rightarrow> (Inr (c # cs), w2)))"

definition mapToCanvas :: "platform \<Rightarrow> jsval \<Rightarrow> world \<Rightarrow> (jserror + nat list) \<times> world" where
  "mapToCanvas plat images w =
     (case images of JArr xs \<Rightarrow> mapToCanvas_loop plat xs w | _ \<Rightarrow> (Inl TypeError, w))"

text \<open>
  \<^verbatim>\<open>
  function createImage(url, onload) {
      const img = new Image();
      if (typeof (onload) === 'function') { img.onload = onload; }
      img.src = url;
      return img;
  }
  \<close>
  As a callback of \<open>then\<close> it gets one argument, so \<open>onload\<close> is \<open>undefined\<close>.
\<close>

definition createImage :: "platform \<Rightarrow> jsstring \<Rightarrow> world \<Rightarrow> nat \<times> world" where
  "createImage plat url w =
     (case new_Image w of
        (img, w1) \<Rightarrow> (case set_src plat img url w1 of (loaded, w2) \<Rightarrow> (img, w2)))"

subsection \<open>The pipeline object and its methods\<close>

text \<open>
  \<open>promise.then(f)\<close>: when the promise is fulfilled, \<open>f\<close> runs on its value and the state
  of that moment, and the derived promise ends as \<open>f\<close> says (the promise \<open>f\<close> returns, its
  return value, or its exception); a rejection is passed on; a pending promise never
  runs \<open>f\<close>.
\<close>

definition then_promise ::
  "'a promise \<Rightarrow> ('a \<Rightarrow> world \<Rightarrow> 'b promise \<times> world) \<Rightarrow> world \<Rightarrow> 'b promise \<times> world" where
  "then_promise p f w =
     (case p of
        Fulfilled v \<Rightarrow> f v w
      | Rejected e \<Rightarrow> (Rejected e, w)
      | Pending \<Rightarrow> (Pending, w))"

definition returned :: "(jserror + 'a) \<times> world \<Rightarrow> 'a promise \<times> world" where
  "returned r = (case r of (Inl e, w) \<Rightarrow> (Rejected e, w) | (Inr v, w) \<Rightarrow> (Fulfilled v, w))"

text \<open>
  \<^verbatim>\<open>
  WatermarkConfig.watermark = function (resources, options = {}, promise = null) {
      const opts = mergeOptions(options);
      promise || (promise = load(resources, opts.init));
      return { dataUrl(draw) {...}, load(resources, init) {...}, render() {...},
               blob(draw) {...}, image(draw) {...}, then(...funcs) {...} };
  };
  \<close>
  The object returned closes over \<open>resources\<close>, \<open>opts\<close> and \<open>promise\<close>, and nothing assigns
  to them afterwards: the pipeline is the record of the three.
\<close>

record Pipeline =
  p_resources :: "jsval list"
  p_opts :: Options
  p_promise :: "jsval promise"

definition watermark ::
  "platform \<Rightarrow> nat list \<Rightarrow> jsval list \<Rightarrow> Options \<Rightarrow> jsval promise option \<Rightarrow> world
     \<Rightarrow> Pipeline \<times> world" where
  "watermark plat sched resources options promise w =
     (let opts = mergeOptions options
      in case promise of
           Some p \<Rightarrow> (\<lparr>p_resources = resources, p_opts = opts, p_promise = p\<rparr>, w)
         | None \<Rightarrow>
             (case load plat sched resources (get_init opts) w of
                (p, w') \<Rightarrow> (\<lparr>p_resources = resources, p_opts = opts, p_promise = p\<rparr>, w')))"

text \<open>
  Every method but \<open>then\<close> ends with \<^verbatim>\<open>return Watermark.watermark(resources, opts, promise);\<close>.
  The file defines \<open>WatermarkConfig\<close>; the identifier \<open>Watermark\<close> is declared and assigned
  nowhere in the repository. What it is bound to is a parameter of the model: \<open>None\<close>
  when it is not bound, and then evaluating it throws a \<open>ReferenceError\<close>.
\<close>

type_synonym watermark_fn =
  "jsval list \<Rightarrow> Options \<Rightarrow> jsval promise option \<Rightarrow> world \<Rightarrow> Pipeline \<times> world"

definition call_Watermark ::
  "watermark_fn option \<Rightarrow> jsval list \<Rightarrow> Options \<Rightarrow> jsval promise \<Rightarrow> world
     \<Rightarrow> (jserror + Pipeline) \<times> world" where
  "call_Watermark g resources opts promise w =
     (case g of
        None \<Rightarrow> (Inl ReferenceError, w)
      | Some wm \<Rightarrow> (case wm resources opts (Some promise) w of (P, w') \<Rightarrow> (Inr P, w')))"

text \<open>
  \<^verbatim>\<open>
  then(...funcs) { return promise.then.apply(promise, funcs); }

  dataUrl(draw) {
      const promise = this
          .then(images => mapToCanvas(images, shared))
          .then(canvases => result(draw, canvases))
          .then(result => release(result, shared));
      return Watermark.watermark(resources, opts, promise);
  }
  \<close>
\<close>

definition Pipeline_then ::
  "Pipeline \<Rightarrow> (jsval \<Rightarrow> world \<Rightarrow> 'b promise \<times> world) \<Rightarrow> world \<Rightarrow> 'b promise \<times> world" where
  "Pipeline_then P f w = then_promise (p_promise P) f w"

definition dataUrl_promise :: "platform \<Rightarrow> draw \<Rightarrow> Pipeline \<Rightarrow> world \<Rightarrow> jsval promise \<times> world" where
  "dataUrl_promise plat drw P w =
     (case Pipeline_then P (\<lambda>images w. returned (mapToCanvas plat images w)) w of
        (p1, w1) \<Rightarrow>
          (case then_promise p1
                  (\<lambda>cs w. case result drw cs w of (r, w') \<Rightarrow> (Fulfilled r, w')) w1 of
             (p2, w2) \<Rightarrow>
               then_promise p2
                 (\<lambda>r w. case release (plat_toDataURL plat) r w of
                           (Inl e, w') \<Rightarrow> (Rejected e, w')
                         | (Inr dataURL, w') \<Rightarrow> (Fulfilled (JStr dataURL), w')) w2))"

definition Pipeline_dataUrl ::
  "watermark_fn option \<Rightarrow> platform \<Rightarrow> draw \<Rightarrow> Pipeline \<Rightarrow> world \<Rightarrow> (jserror + Pipeline) \<times> world" where
  "Pipeline_dataUrl g plat drw P w =
     (case dataUrl_promise plat drw P w of
        (promise, w') \<Rightarrow> call_Watermark g (p_resources P) (p_opts P) promise w')"

text \<open>
  \<^verbatim>\<open>
  load(resources, init) {
      const promise = this
          .then(resource => load([resource].concat(resources), init));
      return Watermark.watermark(resources, opts, promise);
  }
  render() {
      const promise = this.then(resource => load([resource]));
      return Watermark.watermark(resources, opts, promise);
  }
  \<close>
  In \<open>load\<close> the parameter \<open>resources\<close> hides the pipeline's own list: it is the new
  resources that are handed to \<open>Watermark.watermark\<close>. Each call of the top-level \<open>load\<close>
  has its own order of completion.
\<close>

definition load_promise ::
  "platform \<Rightarrow> nat list \<Rightarrow> Pipeline \<Rightarrow> jsval list \<Rightarrow> initializer \<Rightarrow> world \<Rightarrow> jsval promise \<times> world" where
  "load_promise plat sched P resources init w =
     Pipeline_then P (\<lambda>resource w. load plat sched ([resource] @ resources) init w) w"

definition Pipeline_load ::
  "watermark_fn option \<Rightarrow> platform \<Rightarrow> nat list \<Rightarrow> Pipeline \<Rightarrow> jsval list \<Rightarrow> initializer \<Rightarrow> world
     \<Rightarrow> (jserror + Pipeline) \<times> world" where
  "Pipeline_load g plat sched P resources init w =
     (case load_promise plat sched P resources init w of
        (promise, w') \<Rightarrow> call_Watermark g resources (p_opts P) promise w')"

definition render_promise ::
  "platform \<Rightarrow> nat list \<Rightarrow> Pipeline \<Rightarrow> world \<Rightarrow> jsval promise \<times> world" where
  "render_promise plat sched P w =
     Pipeline_then P (\<lambda>resource w. load plat sched [resource] None w) w"

definition Pipeline_render ::
  "watermark_fn option \<Rightarrow> platform \<Rightarrow> nat list \<Rightarrow> Pipeline \<Rightarrow> world
     \<Rightarrow> (jserror + Pipeline) \<times> world" where
  "Pipeline_render g plat sched P w =
     (case render_promise plat sched P w of
        (promise, w') \<Rightarrow> call_Watermark g (p_resources P) (p_opts P) promise w')"

text \<open>
  \<^verbatim>\<open>
  blob(draw) {
      const promise = this.dataUrl(draw).then(mapToBlob);
      return Watermark.watermark(resources, opts, promise);
  }
  image(draw) {
      const promise = this.dataUrl(draw).then(createImage);
      return Watermark.watermark(resources, opts, promise);
  }
  \<close>
  Both call \<open>this.dataUrl(draw)\<close> first, and an exception there ends the method. The
  pipeline that \<open>dataUrl\<close> returns is fulfilled with a string; for any other value the
  callbacks are modelled as failing, a case that no pipeline built here reaches.
\<close>

definition Pipeline_blob ::
  "watermark_fn option \<Rightarrow> platform \<Rightarrow> draw \<Rightarrow> Pipeline \<Rightarrow> world \<Rightarrow> (jserror + Pipeline) \<times> world" where
  "Pipeline_blob g plat drw P w =
     (case Pipeline_dataUrl g plat drw P w of
        (Inl e, w1) \<Rightarrow> (Inl e, w1)
      | (Inr D, w1) \<Rightarrow>
          (case Pipeline_then D
                  (\<lambda>v w. case v of
                            JStr s \<Rightarrow> returned (map_sum id JBlob (mapToBlob (plat_base64 plat) s), w)
                          | _ \<Rightarrow> (Rejected TypeError, w)) w1 of
             (promise, w2) \<Rightarrow> call_Watermark g (p_resources P) (p_opts P) promise w2))"

definition Pipeline_image ::
  "watermark_fn option \<Rightarrow> platform \<Rightarrow> draw \<Rightarrow> Pipeline \<Rightarrow> world \<Rightarrow> (jserror + Pipeline) \<times> world" where
  "Pipeline_image g plat drw P w =
     (case Pipeline_dataUrl g plat drw P w of
        (Inl e, w1) \<Rightarrow> (Inl e, w1)
      | (Inr D, w1) \<Rightarrow>
          (case Pipeline_then D
                  (\<lambda>v w. case v of
                            JStr s \<Rightarrow> (case createImage plat s w of
                                         (img, w') \<Rightarrow> (Fulfilled (JImage img), w'))
                          | _ \<Rightarrow> (Rejected TypeError, w)) w1 of
             (promise, w2) \<Rightarrow> call_Watermark g (p_resources P) (p_opts P) promise w2))"

subsection \<open>Loading more resources\<close>

lemma comes_from_image: "comes_from plat w (JImage k) v \<Longrightarrow> v = JImage k"
  by (cases v) simp_all

text \<open>The pipeline \<^verbatim>\<open>WatermarkConfig.watermark(['a.jpg'])\<close>, started in the first state.\<close>

definition pipe_a :: "Pipeline \<times> world" where
  "pipe_a = watermark toy_platform [0] [JStr (js ''a.jpg'')] empty_object None world0"

lemmas pipeline_defs =
  watermark_def mergeOptions_def clone_def extend_def defaults_def empty_object_def get_init_def
  load_promise_def Pipeline_then_def then_promise_def

text \<open>
  Claim C2, against the code. \<^verbatim>\<open>WatermarkConfig.watermark(['a.jpg'])\<close> resolves to a list
  of one image, the image 0. The promise that \<^verbatim>\<open>.load(['b.jpg'])\<close> derives from it loads
  the two resources \<open>[[image 0], 'b.jpg']\<close>: the list of images is one resource, which is
  neither a string nor an image and goes to \<open>loadFile\<close>. Whichever of the two loads
  settles first, the promise is rejected; it does not resolve to two images.
\<close>

theorem load_of_image_list_is_rejected:
  "p_promise (fst pipe_a) = Fulfilled (JArr [JImage 0]) \<and>
   fst (load_promise toy_platform [0, 1] (fst pipe_a) [JStr (js ''b.jpg'')] None (snd pipe_a))
     = Rejected TypeError \<and>
   fst (load_promise toy_platform [1, 0] (fst pipe_a) [JStr (js ''b.jpg'')] None (snd pipe_a))
     = Rejected TypeError"
  by (simp add: pipe_a_def pipeline_defs load_eq Promise_all_def settle_element_def loader_defs
      toy_platform_def world0_def js_def)

text \<open>
  Claim C2, as amended. For every pipeline \<open>P\<close> that has resolved to a value \<open>v\<close>, the
  promise that \<open>P.load(moreResources, init)\<close> derives is the aggregate load of the list
  \<open>[v]\<close> followed by \<open>moreResources\<close>: \<open>v\<close> is loaded as one resource. When \<open>v\<close> is one
  decoded image and the loads of the new resources complete, in any order, the promise
  resolves to \<open>1 + |moreResources|\<close> images: \<open>v\<close> first, then the image of each new
  resource in the order given.
\<close>

theorem load_appends_to_resolved_value:
  assumes "p_promise P = Fulfilled v"
  shows "load_promise plat sched P added init w = load plat sched (v # added) init w \<and>
         ((\<exists>k. v = JImage k) \<and> list_all (loadable plat) added \<and>
          (\<forall>i<Suc (length added). i \<in> set sched) \<longrightarrow>
          (\<exists>vs. fst (load_promise plat sched P added init w) = Fulfilled (JArr (v # vs)) \<and>
                length vs = length added \<and>
                list_all2 (comes_from plat (snd (load_promise plat sched P added init w))) added vs))"
proof
  show eq: "load_promise plat sched P added init w = load plat sched (v # added) init w"
    using assms by (simp add: load_promise_def Pipeline_then_def then_promise_def)
  show "(\<exists>k. v = JImage k) \<and> list_all (loadable plat) added \<and>
        (\<forall>i<Suc (length added). i \<in> set sched) \<longrightarrow>
        (\<exists>vs. fst (load_promise plat sched P added init w) = Fulfilled (JArr (v # vs)) \<and>
              length vs = length added \<and>
              list_all2 (comes_from plat (snd (load_promise plat sched P added init w))) added vs)"
  proof
    assume a: "(\<exists>k. v = JImage k) \<and> list_all (loadable plat) added \<and>
               (\<forall>i<Suc (length added). i \<in> set sched)"
    then obtain k where k: "v = JImage k" by blast
    have l: "list_all (loadable plat) (v # added)" using a k by simp
    have s: "\<forall>i<length (v # added). i \<in> set sched" using a by simp
    obtain vs0 where vs0:
      "load plat sched (v # added) init w
         = (Fulfilled (JArr vs0), snd (load_loop plat init (v # added) w))"
      "list_all2 (comes_from plat (snd (load_loop plat init (v # added) w))) (v # added) vs0"
      using load_fulfilled [OF l s, of init w] by blast
    from vs0(2) obtain v0 vs where vs: "vs0 = v0 # vs"
      "comes_from plat (snd (load_loop plat init (v # added) w)) v v0"
      "list_all2 (comes_from plat (snd (load_loop plat init (v # added) w))) added vs"
      by (auto simp: list_all2_Cons1)
    have "v0 = v" using vs(2) k comes_from_image by blast
    moreover have "length vs = length added" using vs(3) by (simp add: list_all2_lengthD)
    ultimately show "\<exists>vs. fst (load_promise plat sched P added init w) = Fulfilled (JArr (v # vs)) \<and>
              length vs = length added \<and>
              list_all2 (comes_from plat (snd (load_promise plat sched P added init w))) added vs"
      using eq vs0(1) vs(1,3) by auto
  qed
qed

text \<open>
  A pipeline resolved to the image 0 (as after \<open>image(draw)\<close>), and \<open>b.jpg\<close> loaded after it.
\<close>

theorem load_appends_to_resolved_value_witness:
  "fst (load_promise toy_platform [1, 0]
          \<lparr>p_resources = [], p_opts = defaults, p_promise = Fulfilled (JImage 0)\<rparr>
          [JStr (js ''b.jpg'')] None one_image)
     = Fulfilled (JArr [JImage 0, JImage 1])"
proof -
  have e: "fst (load toy_platform [1, 0] [JImage 0, JStr (js ''b.jpg'')] None one_image)
             = Fulfilled (JArr [JImage 0, JImage 1])"
    by (simp add: load_eq Promise_all_def settle_element_def loader_defs toy_platform_def
        one_image_def world0_def js_def)
  show ?thesis
    using load_appends_to_resolved_value
      [of "\<lparr>p_resources = [], p_opts = defaults, p_promise = Fulfilled (JImage 0)\<rparr>" "JImage 0"
          toy_platform "[1, 0]" "[JStr (js ''b.jpg'')]" None one_image] e
    by simp
qed

subsection \<open>What the chain methods return\<close>

lemma call_Watermark_unbound: "fst (call_Watermark None rs opts p w) = Inl ReferenceError"
  by (simp add: call_Watermark_def)

lemma Pipeline_dataUrl_unbound: "fst (Pipeline_dataUrl None plat drw P w) = Inl ReferenceError"
  by (simp add: Pipeline_dataUrl_def call_Watermark_unbound split: prod.splits)

text \<open>
  Claim C3, on the code as it is. With \<open>Watermark\<close> bound nowhere, each of \<open>dataUrl\<close>,
  \<open>load\<close>, \<open>render\<close>, \<open>blob\<close> and \<open>image\<close>, on every pipeline, derives its promise and then
  throws a \<open>ReferenceError\<close> where it should construct the pipeline to return.
\<close>

theorem chain_methods_throw:
  "fst (Pipeline_dataUrl None plat drw P w) = Inl ReferenceError \<and>
   fst (Pipeline_load None plat sched P added init w) = Inl ReferenceError \<and>
   fst (Pipeline_render None plat sched P w) = Inl ReferenceError \<and>
   fst (Pipeline_blob None plat drw P w) = Inl ReferenceError \<and>
   fst (Pipeline_image None plat drw P w) = Inl ReferenceError"
proof -
  have d: "\<exists>w1. Pipeline_dataUrl None plat drw P w = (Inl ReferenceError, w1)"
    using Pipeline_dataUrl_unbound [of plat drw P w]
    by (cases "Pipeline_dataUrl None plat drw P w") simp
  have "fst (Pipeline_load None plat sched P added init w) = Inl ReferenceError"
    by (simp add: Pipeline_load_def call_Watermark_unbound split: prod.splits)
  moreover have "fst (Pipeline_render None plat sched P w) = Inl ReferenceError"
    by (simp add: Pipeline_render_def call_Watermark_unbound split: prod.splits)
  moreover have "fst (Pipeline_blob None plat drw P w) = Inl ReferenceError"
    using d by (auto simp: Pipeline_blob_def)
  moreover have "fst (Pipeline_image None plat drw P w) = Inl ReferenceError"
    using d by (auto simp: Pipeline_image_def)
  ultimately show ?thesis
    using Pipeline_dataUrl_unbound by simp
qed

text \<open>
  Were \<open>Watermark\<close> bound to \<open>WatermarkConfig\<close>, \<open>dataUrl\<close> would return a new pipeline
  that carries the resources of the old one, its options merged again, and the derived
  promise.
\<close>

lemma Pipeline_dataUrl_bound:
  "fst (Pipeline_dataUrl (Some (watermark plat sched)) plat drw P w)
     = Inr \<lparr>p_resources = p_resources P, p_opts = mergeOptions (p_opts P),
            p_promise = fst (dataUrl_promise plat drw P w)\<rparr>"
  by (simp add: Pipeline_dataUrl_def call_Watermark_def watermark_def split: prod.splits)

end
